theory Spec2Isabelle
  imports Main "HOL-Library.Word"
begin

section \<open>JavaScript values\<close>

text \<open>
  The four functions of \<^verbatim>\<open>countryUtils.js\<close> take untyped JavaScript values. The
  values modelled here are those a parsed JSON document can hold, together with
  \<^verbatim>\<open>undefined\<close>, \<^verbatim>\<open>NaN\<close> and the infinities: primitives, dense arrays, and plain
  objects whose prototype is \<^verbatim>\<open>Object.prototype\<close>. Functions, symbols, big integers,
  accessors and sparse arrays are outside the model.

  A string is a sequence of UTF-16 code units. A literal of the source is written
  \<open>lit ''...''\<close>.
\<close>

type_synonym jsstring = "16 word list"

definition lit :: "string \<Rightarrow> jsstring" where
  "lit s = map of_char s"

text \<open>
  A number is \<^verbatim>\<open>NaN\<close>, an infinity, the negative zero, or a finite value; \<open>Fin 0\<close> is
  the positive zero. The source never computes with numbers: it tests them, passes
  them on and hands them to the platform for rendering. A finite number is
  represented by its integer value; the two renderings below are those of integers
  of magnitude below \<open>2\<^sup>5\<^sup>3\<close>, which ECMAScript prints digit for digit. Fractional
  values, whose digits depend on the floating-point representation, are outside the
  model.
\<close>

datatype jsnum = NaN | PosInf | NegInf | NegZero | Fin int

text \<open>
  An object is the list of its own enumerable properties in the order in which
  \<^verbatim>\<open>Object.values\<close> enumerates them; a property read takes the first entry of a key.
\<close>

datatype jsval =
    JUndefined
  | JNull
  | JBool bool
  | JNum jsnum
  | JStr jsstring
  | JArr "jsval list"
  | JObj "(jsstring \<times> jsval) list"

text \<open>The one exception the modelled operations can raise.\<close>

datatype exn = TypeError

definition bindE :: "exn + 'a \<Rightarrow> ('a \<Rightarrow> exn + 'b) \<Rightarrow> exn + 'b" where
  "bindE m f = (case m of Inl e \<Rightarrow> Inl e | Inr x \<Rightarrow> f x)"

subsection \<open>Operators\<close>

datatype jstype = TyUndefined | TyObject | TyBoolean | TyNumber | TyString

text \<open>\<^verbatim>\<open>typeof v\<close>; \<^verbatim>\<open>typeof null\<close> is \<^verbatim>\<open>'object'\<close>, and so is the type of an array.\<close>

fun typeof :: "jsval \<Rightarrow> jstype" where
  "typeof JUndefined = TyUndefined"
| "typeof JNull = TyObject"
| "typeof (JBool b) = TyBoolean"
| "typeof (JNum n) = TyNumber"
| "typeof (JStr s) = TyString"
| "typeof (JArr xs) = TyObject"
| "typeof (JObj ps) = TyObject"

text \<open>
  The conversion to a boolean behind \<^verbatim>\<open>!v\<close> and \<^verbatim>\<open>v || w\<close>: \<^verbatim>\<open>undefined\<close>, \<^verbatim>\<open>null\<close>,
  \<^verbatim>\<open>false\<close>, \<^verbatim>\<open>NaN\<close>, both zeros and the empty string are falsy.
\<close>

fun truthy :: "jsval \<Rightarrow> bool" where
  "truthy JUndefined = False"
| "truthy JNull = False"
| "truthy (JBool b) = b"
| "truthy (JNum n) = (n \<noteq> NaN \<and> n \<noteq> NegZero \<and> n \<noteq> Fin 0)"
| "truthy (JStr s) = (s \<noteq> [])"
| "truthy (JArr xs) = True"
| "truthy (JObj ps) = True"

text \<open>\<^verbatim>\<open>a || b\<close>.\<close>

definition orElse :: "jsval \<Rightarrow> jsval \<Rightarrow> jsval" where
  "orElse a b = (if truthy a then a else b)"

text \<open>\<^verbatim>\<open>v === 0\<close>: strict equality holds for both zeros and for no other value.\<close>

definition strictEqZero :: "jsval \<Rightarrow> bool" where
  "strictEqZero v = (v = JNum (Fin 0) \<or> v = JNum NegZero)"

definition nullish :: "jsval \<Rightarrow> bool" where
  "nullish v = (v = JUndefined \<or> v = JNull)"

subsection \<open>Property reads\<close>

text \<open>
  The value of the property \<open>k\<close> of a value that is neither \<^verbatim>\<open>undefined\<close> nor \<^verbatim>\<open>null\<close>,
  for the names the source reads: \<^verbatim>\<open>name\<close>, \<^verbatim>\<open>common\<close>, \<^verbatim>\<open>region\<close>, \<^verbatim>\<open>capital\<close>,
  \<^verbatim>\<open>languages\<close>, \<^verbatim>\<open>population\<close>, \<^verbatim>\<open>area\<close>, \<^verbatim>\<open>flags\<close> and \<^verbatim>\<open>png\<close>. None of them is
  defined by a built-in prototype, nor is it an index or \<^verbatim>\<open>length\<close>, so only an
  object can have it, as an own property; every other read gives \<^verbatim>\<open>undefined\<close>.
\<close>

fun propertyValue :: "jsval \<Rightarrow> jsstring \<Rightarrow> jsval" where
  "propertyValue (JObj ps) k = (case map_of ps k of Some v \<Rightarrow> v | None \<Rightarrow> JUndefined)"
| "propertyValue v k = JUndefined"

text \<open>
  The value of the property \<^verbatim>\<open>0\<close>: the first element of an array, the first code unit
  of a string (as a string of length one), the own property \<^verbatim>\<open>"0"\<close> of an object.
\<close>

fun elementZero :: "jsval \<Rightarrow> jsval" where
  "elementZero (JStr s) = (case s of [] \<Rightarrow> JUndefined | c # cs \<Rightarrow> JStr [c])"
| "elementZero (JArr xs) = (case xs of [] \<Rightarrow> JUndefined | x # ys \<Rightarrow> x)"
| "elementZero (JObj ps) = (case map_of ps (lit ''0'') of Some v \<Rightarrow> v | None \<Rightarrow> JUndefined)"
| "elementZero v = JUndefined"

text \<open>\<^verbatim>\<open>v.k\<close> raises on \<^verbatim>\<open>undefined\<close> and \<^verbatim>\<open>null\<close>.\<close>

definition getNamed :: "jsval \<Rightarrow> jsstring \<Rightarrow> exn + jsval" where
  "getNamed v k = (if nullish v then Inl TypeError else Inr (propertyValue v k))"

text \<open>\<^verbatim>\<open>v?.k\<close> and \<^verbatim>\<open>v?.[0]\<close> give \<^verbatim>\<open>undefined\<close> there.\<close>

definition optNamed :: "jsval \<Rightarrow> jsstring \<Rightarrow> exn + jsval" where
  "optNamed v k = (if nullish v then Inr JUndefined else getNamed v k)"

definition optIndexZero :: "jsval \<Rightarrow> exn + jsval" where
  "optIndexZero v = (if nullish v then Inr JUndefined else Inr (elementZero v))"

subsection \<open>Numbers as text\<close>

text \<open>The decimal digits of a natural number, most significant first.\<close>

fun decimalDigits :: "nat \<Rightarrow> jsstring" where
  "decimalDigits n =
     (if n < 10 then [of_nat (48 + n)]
      else decimalDigits (n div 10) @ [of_nat (48 + n mod 10)])"

text \<open>\<^verbatim>\<open>Number::toString\<close>, the conversion of a number to a string.\<close>

fun numberToString :: "jsnum \<Rightarrow> jsstring" where
  "numberToString NaN = lit ''NaN''"
| "numberToString PosInf = lit ''Infinity''"
| "numberToString NegInf = lit ''-Infinity''"
| "numberToString NegZero = lit ''0''"
| "numberToString (Fin i) =
     (if i < 0 then lit ''-'' @ decimalDigits (nat (- i)) else decimalDigits (nat i))"

text \<open>
  \<^verbatim>\<open>Number.prototype.toLocaleString()\<close> is the platform's and depends on the locale
  of the environment. It is taken in the locale of the source's own example,
  \<^verbatim>\<open>formatNumber(1234567)\<close> returning \<^verbatim>\<open>"1,234,567"\<close>: the digits in groups of three
  from the right, separated by commas. \<open>groupThree\<close> works on the digits in reverse
  order. The infinity is rendered by the sign U+221E.
\<close>

fun groupThree :: "jsstring \<Rightarrow> jsstring" where
  "groupThree (a # b # c # d # ds) = a # b # c # of_char (CHR '','') # groupThree (d # ds)"
| "groupThree ds = ds"

definition groupedDigits :: "nat \<Rightarrow> jsstring" where
  "groupedDigits n = rev (groupThree (rev (decimalDigits n)))"

fun numberToLocaleString :: "jsnum \<Rightarrow> jsstring" where
  "numberToLocaleString NaN = lit ''NaN''"
| "numberToLocaleString PosInf = [0x221E]"
| "numberToLocaleString NegInf = lit ''-'' @ [0x221E]"
| "numberToLocaleString NegZero = lit ''-0''"
| "numberToLocaleString (Fin i) =
     (if i < 0 then lit ''-'' @ groupedDigits (nat (- i)) else groupedDigits (nat i))"

subsection \<open>Conversion to a string and \<^verbatim>\<open>Array.prototype.join\<close>\<close>

text \<open>
  \<^verbatim>\<open>ToString\<close> of the language. An array is joined with \<^verbatim>\<open>","\<close>. A plain object gives
  \<^verbatim>\<open>"[object Object]"\<close> through the inherited \<^verbatim>\<open>toString\<close>, unless an own property
  \<^verbatim>\<open>toString\<close> shadows it: an own property is no function here, the inherited
  \<^verbatim>\<open>valueOf\<close> returns the object itself, and the conversion raises a \<^verbatim>\<open>TypeError\<close>.

  \<open>joinLoop\<close> is the loop of \<^verbatim>\<open>Array.prototype.join\<close>: \<open>R\<close> is the string built so
  far, \<open>first\<close> tells whether the index is still 0; \<^verbatim>\<open>undefined\<close> and \<^verbatim>\<open>null\<close>
  elements contribute the empty string.
\<close>

fun toStringV :: "jsval \<Rightarrow> exn + jsstring"
  and joinLoop :: "jsstring \<Rightarrow> jsstring \<Rightarrow> bool \<Rightarrow> jsval list \<Rightarrow> exn + jsstring"
where
  "toStringV JUndefined = Inr (lit ''undefined'')"
| "toStringV JNull = Inr (lit ''null'')"
| "toStringV (JBool b) = Inr (if b then lit ''true'' else lit ''false'')"
| "toStringV (JNum n) = Inr (numberToString n)"
| "toStringV (JStr s) = Inr s"
| "toStringV (JArr xs) = joinLoop (lit '','') [] True xs"
| "toStringV (JObj ps) =
     (if map_of ps (lit ''toString'') \<noteq> None then Inl TypeError
      else Inr (lit ''[object Object]''))"
| "joinLoop sep R first [] = Inr R"
| "joinLoop sep R first (x # xs) =
     (case (if x = JUndefined \<or> x = JNull then Inr [] else toStringV x) of
        Inl e \<Rightarrow> Inl e
      | Inr next \<Rightarrow> joinLoop sep ((if first then R else R @ sep) @ next) False xs)"

text \<open>\<^verbatim>\<open>xs.join(sep)\<close>.\<close>

definition join :: "jsval list \<Rightarrow> jsstring \<Rightarrow> exn + jsstring" where
  "join xs sep = joinLoop sep [] True xs"

text \<open>\<^verbatim>\<open>Object.values\<close>: the own enumerable property values, in enumeration order.\<close>

fun objectValues :: "jsval \<Rightarrow> exn + jsval list" where
  "objectValues JUndefined = Inl TypeError"
| "objectValues JNull = Inl TypeError"
| "objectValues (JBool b) = Inr []"
| "objectValues (JNum n) = Inr []"
| "objectValues (JStr s) = Inr (map (\<lambda>c. JStr [c]) s)"
| "objectValues (JArr xs) = Inr xs"
| "objectValues (JObj ps) = Inr (map snd ps)"

subsection \<open>The method \<^verbatim>\<open>toLocaleString\<close>\<close>

text \<open>
  The method call \<^verbatim>\<open>v.toLocaleString()\<close>. A boolean and a string inherit
  \<^verbatim>\<open>Object.prototype.toLocaleString\<close>, which calls their \<^verbatim>\<open>toString\<close>. An array joins
  the \<^verbatim>\<open>toLocaleString\<close> of its elements with \<^verbatim>\<open>","\<close>, \<^verbatim>\<open>undefined\<close> and \<^verbatim>\<open>null\<close>
  elements contributing the empty string. On a plain object the call raises when an
  own property \<^verbatim>\<open>toLocaleString\<close> or \<^verbatim>\<open>toString\<close> shadows the inherited method (an own
  property is no function here), and gives \<^verbatim>\<open>"[object Object]"\<close> otherwise. Reading
  the method from \<^verbatim>\<open>undefined\<close> or \<^verbatim>\<open>null\<close> raises.
\<close>

fun toLocaleStringV :: "jsval \<Rightarrow> exn + jsstring"
  and localeLoop :: "jsstring \<Rightarrow> bool \<Rightarrow> jsval list \<Rightarrow> exn + jsstring"
where
  "toLocaleStringV JUndefined = Inl TypeError"
| "toLocaleStringV JNull = Inl TypeError"
| "toLocaleStringV (JBool b) = Inr (if b then lit ''true'' else lit ''false'')"
| "toLocaleStringV (JNum n) = Inr (numberToLocaleString n)"
| "toLocaleStringV (JStr s) = Inr s"
| "toLocaleStringV (JArr xs) = localeLoop [] True xs"
| "toLocaleStringV (JObj ps) =
     (if map_of ps (lit ''toLocaleString'') \<noteq> None then Inl TypeError
      else if map_of ps (lit ''toString'') \<noteq> None then Inl TypeError
      else Inr (lit ''[object Object]''))"
| "localeLoop R first [] = Inr R"
| "localeLoop R first (x # xs) =
     (case (if x = JUndefined \<or> x = JNull then Inr [] else toLocaleStringV x) of
        Inl e \<Rightarrow> Inl e
      | Inr next \<Rightarrow> localeLoop ((if first then R else R @ lit '','') @ next) False xs)"

subsection \<open>\<^verbatim>\<open>Array.isArray\<close> and \<^verbatim>\<open>Array.prototype.map\<close>\<close>

fun isArray :: "jsval \<Rightarrow> bool" where
  "isArray (JArr xs) = True"
| "isArray v = False"

text \<open>The callback is applied from left to right; the first exception ends the loop.\<close>

fun mapE :: "('a \<Rightarrow> exn + 'b) \<Rightarrow> 'a list \<Rightarrow> exn + 'b list" where
  "mapE f [] = Inr []"
| "mapE f (x # xs) =
     (case f x of
        Inl e \<Rightarrow> Inl e
      | Inr y \<Rightarrow> (case mapE f xs of Inl e \<Rightarrow> Inl e | Inr ys \<Rightarrow> Inr (y # ys)))"

text \<open>\<^verbatim>\<open>v.map(f)\<close>; no value other than an array has a method \<^verbatim>\<open>map\<close>.\<close>

fun arrayMap :: "(jsval \<Rightarrow> exn + jsval) \<Rightarrow> jsval \<Rightarrow> exn + jsval" where
  "arrayMap f (JArr xs) = bindE (mapE f xs) (\<lambda>ys. Inr (JArr ys))"
| "arrayMap f v = Inl TypeError"

section \<open>The functions of countryUtils.js\<close>

text \<open>
  \<^verbatim>\<open>
  function formatLanguages(languages) {
      if (!languages || typeof languages !== 'object') {
          return 'N/A';
      }
      const languageList = Object.values(languages);
      return languageList.length > 0 ? languageList.join(', ') : 'N/A';
  }
  \<close>
\<close>

definition formatLanguages :: "jsval \<Rightarrow> exn + jsval" where
  "formatLanguages languages =
     (if \<not> truthy languages \<or> typeof languages \<noteq> TyObject then Inr (JStr (lit ''N/A''))
      else bindE (objectValues languages) (\<lambda>languageList.
        if length languageList > 0
        then bindE (join languageList (lit '', '')) (\<lambda>s. Inr (JStr s))
        else Inr (JStr (lit ''N/A''))))"

text \<open>
  \<^verbatim>\<open>
  function flattenCountryFields(country) {
      if (!country || typeof country !== 'object') {
          return { name: 'N/A', region: 'N/A', capital: 'N/A', languages: 'N/A',
                   population: 'N/A', area: 'N/A', flagUrl: '' };
      }
      return {
          name: country.name?.common || 'N/A',
          region: country.region || 'N/A',
          capital: country.capital?.[0] || 'N/A',
          languages: formatLanguages(country.languages),
          population: (country.population !== undefined && country.population !== null)
              ? country.population : 'N/A',
          area: (country.area !== undefined && country.area !== null)
              ? country.area : 'N/A',
          flagUrl: country.flags?.png || ''
      };
  }
  \<close>
  The properties of the object literal are evaluated in the order written.
\<close>

definition flattenCountryFields :: "jsval \<Rightarrow> exn + jsval" where
  "flattenCountryFields country =
     (if \<not> truthy country \<or> typeof country \<noteq> TyObject then
        Inr (JObj
          [(lit ''name'', JStr (lit ''N/A'')),
           (lit ''region'', JStr (lit ''N/A'')),
           (lit ''capital'', JStr (lit ''N/A'')),
           (lit ''languages'', JStr (lit ''N/A'')),
           (lit ''population'', JStr (lit ''N/A'')),
           (lit ''area'', JStr (lit ''N/A'')),
           (lit ''flagUrl'', JStr (lit ''''))])
      else
        bindE (getNamed country (lit ''name'')) (\<lambda>nm.
        bindE (optNamed nm (lit ''common'')) (\<lambda>common.
        bindE (getNamed country (lit ''region'')) (\<lambda>region.
        bindE (getNamed country (lit ''capital'')) (\<lambda>capital.
        bindE (optIndexZero capital) (\<lambda>capital0.
        bindE (getNamed country (lit ''languages'')) (\<lambda>langs.
        bindE (formatLanguages langs) (\<lambda>languages.
        bindE (getNamed country (lit ''population'')) (\<lambda>population.
        bindE (getNamed country (lit ''area'')) (\<lambda>area.
        bindE (getNamed country (lit ''flags'')) (\<lambda>flags.
        bindE (optNamed flags (lit ''png'')) (\<lambda>png.
        Inr (JObj
          [(lit ''name'', orElse common (JStr (lit ''N/A''))),
           (lit ''region'', orElse region (JStr (lit ''N/A''))),
           (lit ''capital'', orElse capital0 (JStr (lit ''N/A''))),
           (lit ''languages'', languages),
           (lit ''population'',
              if population \<noteq> JUndefined \<and> population \<noteq> JNull then population
              else JStr (lit ''N/A'')),
           (lit ''area'',
              if area \<noteq> JUndefined \<and> area \<noteq> JNull then area else JStr (lit ''N/A'')),
           (lit ''flagUrl'', orElse png (JStr (lit '''')))])))))))))))))"

text \<open>
  \<^verbatim>\<open>
  function formatNumber(num) {
      if (!num && num !== 0) {
          return 'N/A';
      }
      return num.toLocaleString();
  }
  \<close>
\<close>

definition formatNumber :: "jsval \<Rightarrow> exn + jsval" where
  "formatNumber num =
     (if \<not> truthy num \<and> \<not> strictEqZero num then Inr (JStr (lit ''N/A''))
      else bindE (toLocaleStringV num) (\<lambda>s. Inr (JStr s)))"

text \<open>
  \<^verbatim>\<open>
  function flattenCountriesArray(countries) {
      if (!Array.isArray(countries)) {
          return [];
      }
      return countries.map(country => flattenCountryFields(country));
  }
  \<close>
\<close>

definition flattenCountriesArray :: "jsval \<Rightarrow> exn + jsval" where
  "flattenCountriesArray countries =
     (if \<not> isArray countries then Inr (JArr [])
      else arrayMap (\<lambda>country. flattenCountryFields country) countries)"

section \<open>Notions of the specification\<close>

text \<open>A non-null structured value: an array or an object.\<close>

fun structured :: "jsval \<Rightarrow> bool" where
  "structured (JArr xs) = True"
| "structured (JObj ps) = True"
| "structured v = False"

text \<open>The fully-absent record.\<close>

definition absentRecord :: jsval where
  "absentRecord = JObj
     [(lit ''name'', JStr (lit ''N/A'')),
      (lit ''region'', JStr (lit ''N/A'')),
      (lit ''capital'', JStr (lit ''N/A'')),
      (lit ''languages'', JStr (lit ''N/A'')),
      (lit ''population'', JStr (lit ''N/A'')),
      (lit ''area'', JStr (lit ''N/A'')),
      (lit ''flagUrl'', JStr (lit ''''))]"

text \<open>
  Strings joined with a separator, as the specification words it: the separator
  stands between neighbours only.
\<close>

fun joinStrings :: "jsstring \<Rightarrow> jsstring list \<Rightarrow> jsstring" where
  "joinStrings sep [] = []"
| "joinStrings sep [s] = s"
| "joinStrings sep (s # t # ts) = s @ sep @ joinStrings sep (t # ts)"

text \<open>The text one element contributes to a join.\<close>

definition elementString :: "jsval \<Rightarrow> exn + jsstring" where
  "elementString x = (if x = JUndefined \<or> x = JNull then Inr [] else toStringV x)"


text \<open>The end-to-end scenario of the specification: a record and its flat form.\<close>

definition france :: jsval where
  "france = JObj
     [(lit ''name'', JObj [(lit ''common'', JStr (lit ''France''))]),
      (lit ''region'', JStr (lit ''Europe'')),
      (lit ''capital'', JArr [JStr (lit ''Paris'')]),
      (lit ''languages'', JObj [(lit ''fra'', JStr (lit ''French''))]),
      (lit ''population'', JNum (Fin 67391582)),
      (lit ''area'', JNum (Fin 551695)),
      (lit ''flags'', JObj [(lit ''png'', JStr (lit ''https://flagcdn.com/w320/fr.png''))])]"

definition franceFlat :: jsval where
  "franceFlat = JObj
     [(lit ''name'', JStr (lit ''France'')),
      (lit ''region'', JStr (lit ''Europe'')),
      (lit ''capital'', JStr (lit ''Paris'')),
      (lit ''languages'', JStr (lit ''French'')),
      (lit ''population'', JNum (Fin 67391582)),
      (lit ''area'', JNum (Fin 551695)),
      (lit ''flagUrl'', JStr (lit ''https://flagcdn.com/w320/fr.png''))]"

text \<open>
  A value whose conversion to a string returns: it is no object with an own property
  \<^verbatim>\<open>toString\<close>, and no array that holds such an object, at any depth of arrays.
\<close>

fun convertible :: "jsval \<Rightarrow> bool"
  and convertibleList :: "jsval list \<Rightarrow> bool"
where
  "convertible (JObj ps) = (map_of ps (lit ''toString'') = None)"
| "convertible (JArr xs) = convertibleList xs"
| "convertible v = True"
| "convertibleList [] = True"
| "convertibleList (x # xs) = (convertible x \<and> convertibleList xs)"

text \<open>The values that the language formatter joins are convertible.\<close>

fun languagesConvertible :: "jsval \<Rightarrow> bool" where
  "languagesConvertible (JArr xs) = convertibleList xs"
| "languagesConvertible (JObj ps) = convertibleList (map snd ps)"
| "languagesConvertible v = True"

text \<open>So are those of the \<^verbatim>\<open>languages\<close> of every record of an array.\<close>

fun countriesConvertible :: "jsval \<Rightarrow> bool" where
  "countriesConvertible (JArr xs) =
     list_all (\<lambda>x. languagesConvertible (propertyValue x (lit ''languages''))) xs"
| "countriesConvertible v = True"

text \<open>
  A value on which the method call \<^verbatim>\<open>toLocaleString()\<close> returns: it is neither
  \<^verbatim>\<open>undefined\<close> nor \<^verbatim>\<open>null\<close>, no object with an own property \<^verbatim>\<open>toLocaleString\<close> or
  \<^verbatim>\<open>toString\<close>, and no array that holds such an object.
\<close>

fun localizable :: "jsval \<Rightarrow> bool"
  and localizableList :: "jsval list \<Rightarrow> bool"
where
  "localizable JUndefined = False"
| "localizable JNull = False"
| "localizable (JObj ps) =
     (map_of ps (lit ''toLocaleString'') = None \<and> map_of ps (lit ''toString'') = None)"
| "localizable (JArr xs) = localizableList xs"
| "localizable v = True"
| "localizableList [] = True"
| "localizableList (x # xs) =
     ((x = JUndefined \<or> x = JNull \<or> localizable x) \<and> localizableList xs)"

section \<open>Basic facts\<close>

lemma bindE_Inr: "bindE (Inr x) f = f x"
  by (simp add: bindE_def)

lemma bindE_Inl: "bindE (Inl e) f = Inl e"
  by (simp add: bindE_def)

lemma structured_guard: "structured v \<longleftrightarrow> truthy v \<and> typeof v = TyObject"
  by (cases v) simp_all

text \<open>Literals are told apart by their text.\<close>

lemma unat_of_char16: "unat (of_char c :: 16 word) = of_char c"
proof -
  have "(of_char c :: nat) < 2 ^ LENGTH(16)"
    using nat_of_char_less_256 [of c] by (simp del: nat_of_char_less_256)
  then have "unat (of_nat (of_char c) :: 16 word) = of_char c"
    by (simp only: unat_of_nat mod_less)
  then show ?thesis
    by (simp only: of_nat_of_char)
qed

lemma inj_of_char16: "inj (of_char :: char \<Rightarrow> 16 word)"
proof (rule injI)
  fix c d :: char
  assume "(of_char c :: 16 word) = of_char d"
  then have "unat (of_char c :: 16 word) = unat (of_char d :: 16 word)" by simp
  then show "c = d" by (simp add: unat_of_char16)
qed

lemma lit_eq_iff: "lit a = lit b \<longleftrightarrow> a = b"
  unfolding lit_def by (rule inj_map_eq_map [OF inj_of_char16])

lemma lit_Nil_iff: "lit a = [] \<longleftrightarrow> a = []"
  by (simp add: lit_def)


text \<open>Reads that cannot raise.\<close>

lemma optNamed_eq: "optNamed v k = Inr (propertyValue v k)"
  by (cases v) (simp_all add: optNamed_def getNamed_def nullish_def)

lemma optIndexZero_eq: "optIndexZero v = Inr (elementZero v)"
  by (cases v) (simp_all add: optIndexZero_def nullish_def)

lemma getNamed_structured: "structured c \<Longrightarrow> getNamed c k = Inr (propertyValue c k)"
  by (cases c) (simp_all add: getNamed_def nullish_def)

lemma propertyValue_unstructured: "\<not> structured c \<Longrightarrow> propertyValue c k = JUndefined"
  by (cases c) simp_all

lemma flatten_structured:
  assumes "structured c"
  shows "flattenCountryFields c =
    bindE (formatLanguages (propertyValue c (lit ''languages''))) (\<lambda>languages.
      Inr (JObj
        [(lit ''name'',
            orElse (propertyValue (propertyValue c (lit ''name'')) (lit ''common''))
              (JStr (lit ''N/A''))),
         (lit ''region'', orElse (propertyValue c (lit ''region'')) (JStr (lit ''N/A''))),
         (lit ''capital'',
            orElse (elementZero (propertyValue c (lit ''capital''))) (JStr (lit ''N/A''))),
         (lit ''languages'', languages),
         (lit ''population'',
            if propertyValue c (lit ''population'') \<noteq> JUndefined
              \<and> propertyValue c (lit ''population'') \<noteq> JNull
            then propertyValue c (lit ''population'') else JStr (lit ''N/A'')),
         (lit ''area'',
            if propertyValue c (lit ''area'') \<noteq> JUndefined
              \<and> propertyValue c (lit ''area'') \<noteq> JNull
            then propertyValue c (lit ''area'') else JStr (lit ''N/A'')),
         (lit ''flagUrl'',
            orElse (propertyValue (propertyValue c (lit ''flags'')) (lit ''png''))
              (JStr (lit '''')))]))"
proof -
  from assms have "truthy c \<and> typeof c = TyObject"
    by (simp add: structured_guard)
  then show ?thesis
    unfolding flattenCountryFields_def
    by (simp add: getNamed_structured [OF assms] optNamed_eq optIndexZero_eq bindE_Inr)
qed

text \<open>The language formatter returns a string whenever it returns.\<close>

lemma formatLanguages_string: "formatLanguages v = Inr l \<Longrightarrow> \<exists>s. l = JStr s"
  unfolding formatLanguages_def
  by (cases v) (auto simp: bindE_def split: if_splits sum.splits)

lemma formatLanguages_unstructured:
  "\<not> structured v \<Longrightarrow> formatLanguages v = Inr (JStr (lit ''N/A''))"
  unfolding formatLanguages_def by (simp add: structured_guard)

lemma propertyValue_defined_object:
  "propertyValue c k \<noteq> JUndefined \<Longrightarrow> structured c"
  by (cases c) simp_all

text \<open>The guard changes nothing: the second branch computes the fully-absent record on an
  input that is not structured.\<close>

lemma flatten_fields:
  "flattenCountryFields c =
    bindE (formatLanguages (propertyValue c (lit ''languages''))) (\<lambda>languages.
      Inr (JObj
        [(lit ''name'',
            orElse (propertyValue (propertyValue c (lit ''name'')) (lit ''common''))
              (JStr (lit ''N/A''))),
         (lit ''region'', orElse (propertyValue c (lit ''region'')) (JStr (lit ''N/A''))),
         (lit ''capital'',
            orElse (elementZero (propertyValue c (lit ''capital''))) (JStr (lit ''N/A''))),
         (lit ''languages'', languages),
         (lit ''population'',
            if propertyValue c (lit ''population'') \<noteq> JUndefined
              \<and> propertyValue c (lit ''population'') \<noteq> JNull
            then propertyValue c (lit ''population'') else JStr (lit ''N/A'')),
         (lit ''area'',
            if propertyValue c (lit ''area'') \<noteq> JUndefined
              \<and> propertyValue c (lit ''area'') \<noteq> JNull
            then propertyValue c (lit ''area'') else JStr (lit ''N/A'')),
         (lit ''flagUrl'',
            orElse (propertyValue (propertyValue c (lit ''flags'')) (lit ''png''))
              (JStr (lit '''')))]))"
proof (cases "structured c")
  case True
  then show ?thesis by (rule flatten_structured)
next
  case False
  then have "\<not> truthy c \<or> typeof c \<noteq> TyObject"
    by (simp add: structured_guard)
  then have "flattenCountryFields c = Inr (JObj
     [(lit ''name'', JStr (lit ''N/A'')),
      (lit ''region'', JStr (lit ''N/A'')),
      (lit ''capital'', JStr (lit ''N/A'')),
      (lit ''languages'', JStr (lit ''N/A'')),
      (lit ''population'', JStr (lit ''N/A'')),
      (lit ''area'', JStr (lit ''N/A'')),
      (lit ''flagUrl'', JStr (lit ''''))])"
    unfolding flattenCountryFields_def by simp
  with False show ?thesis
    by (simp add: propertyValue_unstructured formatLanguages_unstructured bindE_Inr
        orElse_def)
qed

section \<open>Malformed input of the flattener\<close>

text \<open>
  C1. For every input that is not a non-null structured value (\<^verbatim>\<open>null\<close>, \<^verbatim>\<open>undefined\<close>,
  a boolean, a number, a string), \<open>flattenCountryFields\<close> returns the fully-absent
  record: \<^verbatim>\<open>name\<close>, \<^verbatim>\<open>region\<close>, \<^verbatim>\<open>capital\<close>, \<^verbatim>\<open>languages\<close>, \<^verbatim>\<open>population\<close> and \<^verbatim>\<open>area\<close>
  are the string \<^verbatim>\<open>"N/A"\<close> and \<^verbatim>\<open>flagUrl\<close> is the empty string.
\<close>

theorem flatten_malformed_input:
  assumes "\<not> structured v"
  shows "flattenCountryFields v = Inr (JObj
     [(lit ''name'', JStr (lit ''N/A'')),
      (lit ''region'', JStr (lit ''N/A'')),
      (lit ''capital'', JStr (lit ''N/A'')),
      (lit ''languages'', JStr (lit ''N/A'')),
      (lit ''population'', JStr (lit ''N/A'')),
      (lit ''area'', JStr (lit ''N/A'')),
      (lit ''flagUrl'', JStr (lit ''''))])"
proof -
  from assms have "\<not> truthy v \<or> typeof v \<noteq> TyObject"
    by (simp add: structured_guard)
  then show ?thesis
    unfolding flattenCountryFields_def by (simp add: lit_def)
qed

theorem flatten_malformed_input_witness:
  "\<not> structured JNull \<and> \<not> structured JUndefined
   \<and> \<not> structured (JNum (Fin 42)) \<and> \<not> structured (JStr (lit ''France''))
   \<and> flattenCountryFields JNull = Inr absentRecord
   \<and> flattenCountryFields JUndefined = Inr absentRecord
   \<and> flattenCountryFields (JNum (Fin 42)) = Inr absentRecord
   \<and> flattenCountryFields (JStr (lit ''France'')) = Inr absentRecord"
  using flatten_malformed_input [of JNull] flatten_malformed_input [of JUndefined]
    flatten_malformed_input [of "JNum (Fin 42)"]
    flatten_malformed_input [of "JStr (lit ''France'')"]
  by (simp add: absentRecord_def)

section \<open>Population and area\<close>

text \<open>
  C2. For every structured record, \<open>flattenCountryFields\<close> maps \<^verbatim>\<open>population\<close> (and in
  the same way \<^verbatim>\<open>area\<close>) as follows: if the source field is neither \<^verbatim>\<open>undefined\<close> nor
  \<^verbatim>\<open>null\<close>, the output field is the source value itself, of whatever type (the
  number 0 and negative numbers included); otherwise it is the string \<^verbatim>\<open>"N/A"\<close>. The
  call returns whenever the language formatter returns on the record's \<^verbatim>\<open>languages\<close>.
\<close>

theorem flatten_population_area:
  assumes "structured c"
    and "formatLanguages (propertyValue c (lit ''languages'')) = Inr l"
  shows "\<exists>r. flattenCountryFields c = Inr r
    \<and> propertyValue r (lit ''population'') =
        (if propertyValue c (lit ''population'') \<noteq> JUndefined
           \<and> propertyValue c (lit ''population'') \<noteq> JNull
         then propertyValue c (lit ''population'') else JStr (lit ''N/A''))
    \<and> propertyValue r (lit ''area'') =
        (if propertyValue c (lit ''area'') \<noteq> JUndefined
           \<and> propertyValue c (lit ''area'') \<noteq> JNull
         then propertyValue c (lit ''area'') else JStr (lit ''N/A''))"
  using assms(2) by (simp add: flatten_structured [OF assms(1)] bindE_Inr lit_eq_iff)

text \<open>A population of 0 stays the number 0, and a negative area stays as it is.\<close>

theorem flatten_population_area_witness:
  "structured (JObj [(lit ''population'', JNum (Fin 0)), (lit ''area'', JNum (Fin (- 7)))])
   \<and> formatLanguages (propertyValue
        (JObj [(lit ''population'', JNum (Fin 0)), (lit ''area'', JNum (Fin (- 7)))])
        (lit ''languages'')) = Inr (JStr (lit ''N/A''))
   \<and> (\<exists>r. flattenCountryFields
          (JObj [(lit ''population'', JNum (Fin 0)), (lit ''area'', JNum (Fin (- 7)))]) = Inr r
        \<and> propertyValue r (lit ''population'') = JNum (Fin 0)
        \<and> propertyValue r (lit ''population'') \<noteq> JStr (lit ''N/A'')
        \<and> propertyValue r (lit ''area'') = JNum (Fin (- 7)))"
  using flatten_population_area
    [of "JObj [(lit ''population'', JNum (Fin 0)), (lit ''area'', JNum (Fin (- 7)))]"
        "JStr (lit ''N/A'')"]
  by (auto simp: formatLanguages_def lit_eq_iff)

section \<open>A capital given as a string\<close>

text \<open>
  C9. For every record whose \<^verbatim>\<open>capital\<close> is a non-empty string instead of a sequence,
  \<open>flattenCountryFields\<close> returns the first code unit of that string as the capital:
  not \<^verbatim>\<open>"N/A"\<close>, and not the whole string when the string is longer than one code
  unit. The extraction reads position 0 of whatever value is there.
\<close>

theorem flatten_capital_string:
  assumes "propertyValue c (lit ''capital'') = JStr (ch # rest)"
    and "formatLanguages (propertyValue c (lit ''languages'')) = Inr l"
  shows "\<exists>r. flattenCountryFields c = Inr r
    \<and> propertyValue r (lit ''capital'') = JStr [ch]
    \<and> propertyValue r (lit ''capital'') \<noteq> JStr (lit ''N/A'')
    \<and> (rest \<noteq> [] \<longrightarrow> propertyValue r (lit ''capital'') \<noteq> JStr (ch # rest))"
proof -
  from assms(1) have "structured c"
    by (intro propertyValue_defined_object [of c "lit ''capital''"]) simp
  then show ?thesis
    using assms by (simp add: flatten_structured bindE_Inr lit_eq_iff orElse_def lit_def)
qed

theorem flatten_capital_string_witness:
  "propertyValue (JObj [(lit ''capital'', JStr (lit ''Paris''))]) (lit ''capital'')
     = JStr (of_char (CHR ''P'') # lit ''aris'')
   \<and> formatLanguages (propertyValue (JObj [(lit ''capital'', JStr (lit ''Paris''))])
        (lit ''languages'')) = Inr (JStr (lit ''N/A''))
   \<and> (\<exists>r. flattenCountryFields (JObj [(lit ''capital'', JStr (lit ''Paris''))]) = Inr r
        \<and> propertyValue r (lit ''capital'') = JStr (lit ''P'')
        \<and> propertyValue r (lit ''capital'') \<noteq> JStr (lit ''N/A'')
        \<and> propertyValue r (lit ''capital'') \<noteq> JStr (lit ''Paris''))"
  using flatten_capital_string
    [of "JObj [(lit ''capital'', JStr (lit ''Paris''))]" "of_char (CHR ''P'')" "lit ''aris''"
        "JStr (lit ''N/A'')"]
  by (simp add: formatLanguages_def lit_def)

section \<open>The language formatter\<close>

text \<open>
  The loop of \<^verbatim>\<open>join\<close> builds what the specification calls the joined string: the
  texts of the elements, in order, with the separator between neighbours. It raises
  as soon as the text of an element does.
\<close>

lemma joinStrings_Cons: "joinStrings sep (s # ss) = s @ concat (map (\<lambda>t. sep @ t) ss)"
  by (induction ss arbitrary: s) simp_all

lemma joinLoop_step:
  "joinLoop sep R first (x # xs) =
     (case elementString x of
        Inl e \<Rightarrow> Inl e
      | Inr next \<Rightarrow> joinLoop sep ((if first then R else R @ sep) @ next) False xs)"
  by (simp add: elementString_def)

lemma joinLoop_rest:
  "joinLoop sep R False xs =
     bindE (mapE elementString xs) (\<lambda>ss. Inr (R @ concat (map (\<lambda>t. sep @ t) ss)))"
proof (induction xs arbitrary: R)
  case Nil
  show ?case by (simp add: bindE_Inr)
next
  case (Cons x xs)
  show ?case
  proof (cases "elementString x")
    case (Inl e)
    then show ?thesis by (simp only: joinLoop_step mapE.simps sum.case bindE_Inl)
  next
    case (Inr s)
    show ?thesis
    proof (cases "mapE elementString xs")
      case (Inl e)
      with Inr show ?thesis
        by (simp only: joinLoop_step mapE.simps Cons.IH sum.case bindE_Inl)
    next
      case ys: (Inr ys)
      with Inr show ?thesis
        by (simp only: joinLoop_step mapE.simps Cons.IH sum.case bindE_Inr) simp
    qed
  qed
qed

lemma join_elements:
  "join xs sep = bindE (mapE elementString xs) (\<lambda>ss. Inr (joinStrings sep ss))"
proof (cases xs)
  case Nil
  then show ?thesis by (simp add: join_def bindE_Inr)
next
  case (Cons x ys)
  show ?thesis
  proof (cases "elementString x")
    case (Inl e)
    with Cons show ?thesis
      by (simp only: join_def joinLoop_step mapE.simps sum.case bindE_Inl)
  next
    case (Inr s)
    show ?thesis
    proof (cases "mapE elementString ys")
      case (Inl e)
      with Inr Cons show ?thesis
        by (simp only: join_def joinLoop_step joinLoop_rest mapE.simps sum.case bindE_Inl)
    next
      case zs: (Inr zs)
      with Inr Cons show ?thesis
        by (simp only: join_def joinLoop_step joinLoop_rest mapE.simps sum.case bindE_Inr
            joinStrings_Cons) simp
    qed
  qed
qed

lemma mapE_strings: "mapE elementString (map JStr ss) = Inr ss"
  by (induction ss) (simp_all add: elementString_def)

lemma join_strings: "join (map JStr ss) sep = Inr (joinStrings sep ss)"
  by (simp add: join_elements mapE_strings bindE_Inr)

lemma formatLanguages_object:
  "formatLanguages (JObj ps) =
     (if ps = [] then Inr (JStr (lit ''N/A''))
      else bindE (mapE elementString (map snd ps))
        (\<lambda>ss. Inr (JStr (joinStrings (lit '', '') ss))))"
  unfolding formatLanguages_def
  by (cases "mapE elementString (map snd ps)")
    (simp_all add: join_elements bindE_Inr bindE_Inl)

lemma formatLanguages_array:
  "formatLanguages (JArr xs) =
     (if xs = [] then Inr (JStr (lit ''N/A''))
      else bindE (mapE elementString xs)
        (\<lambda>ss. Inr (JStr (joinStrings (lit '', '') ss))))"
  unfolding formatLanguages_def
  by (cases "mapE elementString xs")
    (simp_all add: join_elements bindE_Inr bindE_Inl)

lemma map_snd_strings: "map snd (map (\<lambda>(k, s). (k, JStr s)) ps) = map JStr (map snd ps)"
  by (induction ps) auto

lemma formatLanguages_names:
  "ps \<noteq> [] \<Longrightarrow>
     formatLanguages (JObj (map (\<lambda>(k, s). (k, JStr s)) ps))
       = Inr (JStr (joinStrings (lit '', '') (map snd ps)))"
  by (simp only: formatLanguages_object map_snd_strings mapE_strings bindE_Inr) simp

text \<open>
  C4. \<open>formatLanguages\<close> returns \<^verbatim>\<open>"N/A"\<close> when its input is not a non-null structured
  value (\<^verbatim>\<open>null\<close>, for one) and when the mapping has no entry. For a non-empty mapping
  of codes to names it returns the names joined with \<^verbatim>\<open>", "\<close> in the mapping's own
  order. For a non-empty mapping of any values, it joins the texts of the values.
\<close>

theorem formatLanguages_mapping:
  "(\<not> structured v \<longrightarrow> formatLanguages v = Inr (JStr (lit ''N/A'')))
   \<and> formatLanguages (JObj []) = Inr (JStr (lit ''N/A''))
   \<and> (ps \<noteq> [] \<longrightarrow>
        formatLanguages (JObj (map (\<lambda>(k, s). (k, JStr s)) ps))
          = Inr (JStr (joinStrings (lit '', '') (map snd ps))))
   \<and> (qs \<noteq> [] \<longrightarrow>
        formatLanguages (JObj qs)
          = bindE (mapE elementString (map snd qs))
              (\<lambda>ss. Inr (JStr (joinStrings (lit '', '') ss))))"
proof (intro conjI impI)
  assume "\<not> structured v"
  then show "formatLanguages v = Inr (JStr (lit ''N/A''))"
    by (rule formatLanguages_unstructured)
next
  show "formatLanguages (JObj []) = Inr (JStr (lit ''N/A''))"
    by (simp add: formatLanguages_object)
next
  assume "ps \<noteq> []"
  then show "formatLanguages (JObj (map (\<lambda>(k, s). (k, JStr s)) ps))
      = Inr (JStr (joinStrings (lit '', '') (map snd ps)))"
    by (rule formatLanguages_names)
next
  assume "qs \<noteq> []"
  then show "formatLanguages (JObj qs)
      = bindE (mapE elementString (map snd qs))
          (\<lambda>ss. Inr (JStr (joinStrings (lit '', '') ss)))"
    by (simp add: formatLanguages_object)
qed

theorem formatLanguages_mapping_witness:
  "\<not> structured JNull \<and> formatLanguages JNull = Inr (JStr (lit ''N/A''))
   \<and> formatLanguages (JObj []) = Inr (JStr (lit ''N/A''))
   \<and> [(lit ''a'', lit ''X''), (lit ''b'', lit ''Y'')] \<noteq> []
   \<and> formatLanguages (JObj [(lit ''a'', JStr (lit ''X'')), (lit ''b'', JStr (lit ''Y''))])
       = Inr (JStr (lit ''X, Y''))
   \<and> formatLanguages (JObj [(lit ''a'', JNull), (lit ''b'', JNum (Fin 5))])
       = Inr (JStr (lit '', 5''))"
  using formatLanguages_mapping
    [of JNull "[(lit ''a'', lit ''X''), (lit ''b'', lit ''Y'')]"
        "[(lit ''a'', JNull), (lit ''b'', JNum (Fin 5))]"]
  by (simp add: lit_def elementString_def bindE_Inr)

text \<open>
  C10. An array is accepted as a structured value: for every non-empty array of
  strings \<open>formatLanguages\<close> returns the elements joined with \<^verbatim>\<open>", "\<close>; the empty
  array gives \<^verbatim>\<open>"N/A"\<close>.
\<close>

theorem formatLanguages_string_array:
  "formatLanguages (JArr []) = Inr (JStr (lit ''N/A''))
   \<and> (ss \<noteq> [] \<longrightarrow>
        formatLanguages (JArr (map JStr ss)) = Inr (JStr (joinStrings (lit '', '') ss)))"
  by (simp add: formatLanguages_array mapE_strings bindE_Inr)

theorem formatLanguages_string_array_witness:
  "[lit ''English'', lit ''French''] \<noteq> []
   \<and> formatLanguages (JArr [JStr (lit ''English''), JStr (lit ''French'')])
       = Inr (JStr (lit ''English, French''))
   \<and> formatLanguages (JArr [JStr (lit ''English''), JStr (lit ''French'')])
       \<noteq> Inr (JStr (lit ''N/A''))
   \<and> formatLanguages (JArr []) = Inr (JStr (lit ''N/A''))"
  using formatLanguages_string_array [of "[lit ''English'', lit ''French'']"]
  by (simp add: lit_def)

section \<open>The number formatter\<close>




section \<open>The batch flattener\<close>

lemma mapE_Inr_iff: "mapE f xs = Inr ys \<longleftrightarrow> list_all2 (\<lambda>x y. f x = Inr y) xs ys"
proof (induction xs arbitrary: ys)
  case Nil
  show ?case by auto
next
  case (Cons x xs)
  show ?case
  proof (cases "f x")
    case (Inl e)
    then show ?thesis by (auto simp: list_all2_Cons1)
  next
    case (Inr y)
    then show ?thesis
      using Cons.IH by (cases "mapE f xs") (auto simp: list_all2_Cons1)
  qed
qed

lemma mapE_returns:
  "(\<forall>x \<in> set xs. \<exists>y. f x = Inr y) \<Longrightarrow> \<exists>ys. mapE f xs = Inr ys"
  by (induction xs) auto

lemma mapE_raises:
  "x \<in> set xs \<Longrightarrow> f x = Inl e \<Longrightarrow> \<exists>e'. mapE f xs = Inl e'"
  by (induction xs) (auto split: sum.splits)

text \<open>
  C6. \<open>flattenCountriesArray\<close> returns the empty array for every input that is not an
  array, without raising. For an array of length N it returns an array of length N
  whose i-th element is what \<open>flattenCountryFields\<close> returns for the i-th input
  element: the order is kept and nothing is filtered. The call returns when
  \<open>flattenCountryFields\<close> returns for every element, and raises when it raises for
  one.
\<close>

theorem flattenCountriesArray_spec:
  "(\<not> isArray v \<longrightarrow> flattenCountriesArray v = Inr (JArr []))
   \<and> ((\<forall>x \<in> set xs. \<exists>r. flattenCountryFields x = Inr r) \<longrightarrow>
        (\<exists>ys. flattenCountriesArray (JArr xs) = Inr (JArr ys)
           \<and> length ys = length xs
           \<and> (\<forall>i < length xs. flattenCountryFields (xs ! i) = Inr (ys ! i))))
   \<and> ((\<exists>x \<in> set xs. \<exists>e. flattenCountryFields x = Inl e) \<longrightarrow>
        (\<exists>e. flattenCountriesArray (JArr xs) = Inl e))"
proof (intro conjI impI)
  assume "\<not> isArray v"
  then show "flattenCountriesArray v = Inr (JArr [])"
    by (simp add: flattenCountriesArray_def)
next
  assume "\<forall>x \<in> set xs. \<exists>r. flattenCountryFields x = Inr r"
  then obtain ys where ys: "mapE flattenCountryFields xs = Inr ys"
    using mapE_returns [of xs flattenCountryFields] by blast
  then have "list_all2 (\<lambda>x y. flattenCountryFields x = Inr y) xs ys"
    by (simp add: mapE_Inr_iff)
  then have "length ys = length xs"
    and "\<forall>i < length xs. flattenCountryFields (xs ! i) = Inr (ys ! i)"
    by (simp_all add: list_all2_conv_all_nth)
  moreover from ys have "flattenCountriesArray (JArr xs) = Inr (JArr ys)"
    by (simp add: flattenCountriesArray_def bindE_Inr)
  ultimately show "\<exists>ys. flattenCountriesArray (JArr xs) = Inr (JArr ys)
      \<and> length ys = length xs
      \<and> (\<forall>i < length xs. flattenCountryFields (xs ! i) = Inr (ys ! i))"
    by blast
next
  assume "\<exists>x \<in> set xs. \<exists>e. flattenCountryFields x = Inl e"
  then obtain e where "mapE flattenCountryFields xs = Inl e"
    using mapE_raises [of _ xs flattenCountryFields] by blast
  then show "\<exists>e. flattenCountriesArray (JArr xs) = Inl e"
    by (simp add: flattenCountriesArray_def bindE_Inl)
qed

theorem flattenCountriesArray_spec_witness:
  "\<not> isArray (JStr (lit ''France'')) \<and> \<not> isArray JNull
   \<and> flattenCountriesArray (JStr (lit ''France'')) = Inr (JArr [])
   \<and> flattenCountriesArray JNull = Inr (JArr [])
   \<and> flattenCountryFields JNull = Inr absentRecord
   \<and> flattenCountryFields (JObj [(lit ''region'', JStr (lit ''Europe''))]) =
       Inr (JObj
         [(lit ''name'', JStr (lit ''N/A'')),
          (lit ''region'', JStr (lit ''Europe'')),
          (lit ''capital'', JStr (lit ''N/A'')),
          (lit ''languages'', JStr (lit ''N/A'')),
          (lit ''population'', JStr (lit ''N/A'')),
          (lit ''area'', JStr (lit ''N/A'')),
          (lit ''flagUrl'', JStr (lit ''''))])
   \<and> flattenCountriesArray (JArr [JNull, JObj [(lit ''region'', JStr (lit ''Europe''))]]) =
       Inr (JArr
         [absentRecord,
          JObj
           [(lit ''name'', JStr (lit ''N/A'')),
            (lit ''region'', JStr (lit ''Europe'')),
            (lit ''capital'', JStr (lit ''N/A'')),
            (lit ''languages'', JStr (lit ''N/A'')),
            (lit ''population'', JStr (lit ''N/A'')),
            (lit ''area'', JStr (lit ''N/A'')),
            (lit ''flagUrl'', JStr (lit ''''))]])"
proof -
  let ?c = "JObj [(lit ''region'', JStr (lit ''Europe''))]"
  have a: "flattenCountryFields JNull = Inr absentRecord"
    by (simp add: flattenCountryFields_def absentRecord_def)
  have b: "flattenCountryFields ?c = Inr (JObj
         [(lit ''name'', JStr (lit ''N/A'')),
          (lit ''region'', JStr (lit ''Europe'')),
          (lit ''capital'', JStr (lit ''N/A'')),
          (lit ''languages'', JStr (lit ''N/A'')),
          (lit ''population'', JStr (lit ''N/A'')),
          (lit ''area'', JStr (lit ''N/A'')),
          (lit ''flagUrl'', JStr (lit ''''))])"
    by (simp add: flatten_structured formatLanguages_def bindE_Inr orElse_def lit_eq_iff
        lit_Nil_iff)
  have "\<forall>x \<in> set [JNull, ?c]. \<exists>r. flattenCountryFields x = Inr r"
    using a b by simp
  with flattenCountriesArray_spec [of "JStr (lit ''France'')" "[JNull, ?c]"]
    flattenCountriesArray_spec [of JNull "[]"]
  obtain ys where "flattenCountriesArray (JArr [JNull, ?c]) = Inr (JArr ys)"
    and "length ys = 2"
    and "\<forall>i < 2. flattenCountryFields ([JNull, ?c] ! i) = Inr (ys ! i)"
    and c: "flattenCountriesArray (JStr (lit ''France'')) = Inr (JArr [])"
      "flattenCountriesArray JNull = Inr (JArr [])"
    by auto
  then show ?thesis using a b
    by (simp add: flattenCountriesArray_def bindE_Inr)
qed

section \<open>The types of the output fields\<close>




section \<open>Flattening a flat record\<close>

text \<open>What a returned record looks like, and the two passes over the scenario.\<close>

lemma truthy_orElse_NA: "truthy (orElse v (JStr (lit ''N/A'')))"
  by (simp add: orElse_def lit_Nil_iff)

lemma flatten_result_shape:
  assumes "flattenCountryFields c = Inr r"
  shows "\<exists>n rg cp s p a f. r = JObj
       [(lit ''name'', n), (lit ''region'', rg), (lit ''capital'', cp),
        (lit ''languages'', JStr s), (lit ''population'', p), (lit ''area'', a),
        (lit ''flagUrl'', f)]
     \<and> truthy rg \<and> p \<noteq> JUndefined \<and> p \<noteq> JNull \<and> a \<noteq> JUndefined \<and> a \<noteq> JNull"
proof (cases "formatLanguages (propertyValue c (lit ''languages''))")
  case (Inl e)
  with assms show ?thesis
    by (simp add: flatten_fields bindE_Inl)
next
  case (Inr l)
  then obtain s where "l = JStr s"
    using formatLanguages_string by blast
  with Inr assms show ?thesis
    by (auto simp: flatten_fields bindE_Inr truthy_orElse_NA)
qed

lemma flatten_france: "flattenCountryFields france = Inr franceFlat"
proof -
  have fl: "formatLanguages (propertyValue france (lit ''languages''))
      = Inr (JStr (lit ''French''))"
    by (simp add: france_def lit_eq_iff formatLanguages_object elementString_def bindE_Inr)
  show ?thesis
    using fl
    by (simp add: flatten_fields bindE_Inr)
      (simp add: france_def franceFlat_def lit_eq_iff orElse_def lit_Nil_iff)
qed

lemma flatten_franceFlat:
  "flattenCountryFields franceFlat = Inr (JObj
     [(lit ''name'', JStr (lit ''N/A'')),
      (lit ''region'', JStr (lit ''Europe'')),
      (lit ''capital'', JStr (lit ''P'')),
      (lit ''languages'', JStr (lit ''N/A'')),
      (lit ''population'', JNum (Fin 67391582)),
      (lit ''area'', JNum (Fin 551695)),
      (lit ''flagUrl'', JStr (lit ''''))])"
proof -
  have pv: "propertyValue franceFlat (lit ''name'') = JStr (lit ''France'')"
    "propertyValue franceFlat (lit ''region'') = JStr (lit ''Europe'')"
    "propertyValue franceFlat (lit ''capital'') = JStr (lit ''Paris'')"
    "propertyValue franceFlat (lit ''languages'') = JStr (lit ''French'')"
    "propertyValue franceFlat (lit ''population'') = JNum (Fin 67391582)"
    "propertyValue franceFlat (lit ''area'') = JNum (Fin 551695)"
    "propertyValue franceFlat (lit ''flags'') = JUndefined"
    by (simp_all add: franceFlat_def lit_eq_iff)
  have l: "formatLanguages (JStr (lit ''French'')) = Inr (JStr (lit ''N/A''))"
    by (simp add: formatLanguages_unstructured)
  have cap: "elementZero (JStr (lit ''Paris'')) = JStr (lit ''P'')"
    by (simp add: lit_def)
  show ?thesis
    by (simp only: flatten_fields pv l cap bindE_Inr)
      (simp add: orElse_def lit_Nil_iff)
qed

text \<open>
  C7 as stated asks that \<open>flattenCountryFields\<close>, applied to its own output, give the
  fully-absent record. A flat record is a structured value, so the guard lets it
  pass; its \<^verbatim>\<open>region\<close>, \<^verbatim>\<open>population\<close> and \<^verbatim>\<open>area\<close> are top-level properties and are
  read again, and position 0 of its \<^verbatim>\<open>capital\<close> string is the first code unit. The
  flat form of the scenario's record is flattened to a record with region
  \<^verbatim>\<open>"Europe"\<close> and capital \<^verbatim>\<open>"P"\<close>.
\<close>

theorem flatten_twice_counterexample:
  "flattenCountryFields france = Inr franceFlat
   \<and> flattenCountryFields franceFlat = Inr (JObj
       [(lit ''name'', JStr (lit ''N/A'')),
        (lit ''region'', JStr (lit ''Europe'')),
        (lit ''capital'', JStr (lit ''P'')),
        (lit ''languages'', JStr (lit ''N/A'')),
        (lit ''population'', JNum (Fin 67391582)),
        (lit ''area'', JNum (Fin 551695)),
        (lit ''flagUrl'', JStr (lit ''''))])
   \<and> flattenCountryFields franceFlat \<noteq> Inr absentRecord"
  by (simp add: flatten_france flatten_franceFlat absentRecord_def lit_eq_iff)

text \<open>
  C7, amended. For every input on which \<open>flattenCountryFields\<close> returns, applying it to
  the output returns again, and the second output keeps the \<^verbatim>\<open>region\<close>, \<^verbatim>\<open>population\<close>
  and \<^verbatim>\<open>area\<close> of the first; its \<^verbatim>\<open>languages\<close> is \<^verbatim>\<open>"N/A"\<close> and its \<^verbatim>\<open>flagUrl\<close> is \<^verbatim>\<open>""\<close>;
  its \<^verbatim>\<open>name\<close> is \<^verbatim>\<open>"N/A"\<close> whenever the first name is a string; its \<^verbatim>\<open>capital\<close> is the
  first code unit of the first capital whenever that is a string.
\<close>

theorem flatten_twice:
  assumes "flattenCountryFields c = Inr r"
  shows "\<exists>r'. flattenCountryFields r = Inr r'
    \<and> propertyValue r' (lit ''region'') = propertyValue r (lit ''region'')
    \<and> propertyValue r' (lit ''population'') = propertyValue r (lit ''population'')
    \<and> propertyValue r' (lit ''area'') = propertyValue r (lit ''area'')
    \<and> propertyValue r' (lit ''languages'') = JStr (lit ''N/A'')
    \<and> propertyValue r' (lit ''flagUrl'') = JStr (lit '''')
    \<and> propertyValue r' (lit ''name'') =
        orElse (propertyValue (propertyValue r (lit ''name'')) (lit ''common''))
          (JStr (lit ''N/A''))
    \<and> propertyValue r' (lit ''capital'') =
        orElse (elementZero (propertyValue r (lit ''capital''))) (JStr (lit ''N/A''))
    \<and> (\<forall>s. propertyValue r (lit ''name'') = JStr s
          \<longrightarrow> propertyValue r' (lit ''name'') = JStr (lit ''N/A''))
    \<and> (\<forall>ch rest. propertyValue r (lit ''capital'') = JStr (ch # rest)
          \<longrightarrow> propertyValue r' (lit ''capital'') = JStr [ch])"
proof -
  from flatten_result_shape [OF assms] obtain n rg cp s p a f where
    r: "r = JObj
       [(lit ''name'', n), (lit ''region'', rg), (lit ''capital'', cp),
        (lit ''languages'', JStr s), (lit ''population'', p), (lit ''area'', a),
        (lit ''flagUrl'', f)]"
    and t: "truthy rg" "p \<noteq> JUndefined" "p \<noteq> JNull" "a \<noteq> JUndefined" "a \<noteq> JNull"
    by blast
  have pv: "propertyValue r (lit ''name'') = n" "propertyValue r (lit ''region'') = rg"
    "propertyValue r (lit ''capital'') = cp" "propertyValue r (lit ''languages'') = JStr s"
    "propertyValue r (lit ''population'') = p" "propertyValue r (lit ''area'') = a"
    "propertyValue r (lit ''flags'') = JUndefined"
    by (simp_all add: r lit_eq_iff)
  have l: "formatLanguages (JStr s) = Inr (JStr (lit ''N/A''))"
    by (simp add: formatLanguages_unstructured)
  have f: "flattenCountryFields r = Inr (JObj
       [(lit ''name'', orElse (propertyValue n (lit ''common'')) (JStr (lit ''N/A''))),
        (lit ''region'', rg),
        (lit ''capital'', orElse (elementZero cp) (JStr (lit ''N/A''))),
        (lit ''languages'', JStr (lit ''N/A'')),
        (lit ''population'', p),
        (lit ''area'', a),
        (lit ''flagUrl'', JStr (lit ''''))])"
    by (simp only: flatten_fields pv l bindE_Inr) (simp add: t orElse_def)
  show ?thesis
    by (simp only: f pv) (auto simp: lit_eq_iff orElse_def)
qed

theorem flatten_twice_witness:
  "flattenCountryFields france = Inr franceFlat
   \<and> (\<exists>r'. flattenCountryFields franceFlat = Inr r'
        \<and> propertyValue r' (lit ''name'') = JStr (lit ''N/A'')
        \<and> propertyValue r' (lit ''region'') = JStr (lit ''Europe'')
        \<and> propertyValue r' (lit ''capital'') = JStr (lit ''P'')
        \<and> propertyValue r' (lit ''languages'') = JStr (lit ''N/A'')
        \<and> propertyValue r' (lit ''population'') = JNum (Fin 67391582)
        \<and> propertyValue r' (lit ''area'') = JNum (Fin 551695)
        \<and> propertyValue r' (lit ''flagUrl'') = JStr (lit ''''))"
proof -
  have pv: "propertyValue franceFlat (lit ''name'') = JStr (lit ''France'')"
    "propertyValue franceFlat (lit ''region'') = JStr (lit ''Europe'')"
    "propertyValue franceFlat (lit ''capital'') = JStr (of_char (CHR ''P'') # lit ''aris'')"
    "propertyValue franceFlat (lit ''population'') = JNum (Fin 67391582)"
    "propertyValue franceFlat (lit ''area'') = JNum (Fin 551695)"
    by (simp_all add: franceFlat_def lit_eq_iff) (simp add: lit_def)
  from flatten_twice [OF flatten_france] pv show ?thesis
    by (auto simp: flatten_france lit_def)
qed

section \<open>Exceptions\<close>

text \<open>
  Where the conversions return, by induction along their own recursion through
  nested arrays; then the same for the four functions.
\<close>

lemma toStringV_returns: "(\<exists>s. toStringV v = Inr s) \<longleftrightarrow> convertible v"
  and joinLoop_returns: "(\<exists>s. joinLoop sep R first xs = Inr s) \<longleftrightarrow> convertibleList xs"
proof (induction v and sep R first xs rule: toStringV_joinLoop.induct)
  case (9 sep R first x xs)
  show ?case
  proof (cases "x = JUndefined \<or> x = JNull")
    case True
    with 9(2) [of "[]"] show ?thesis by auto
  next
    case False
    show ?thesis
    proof (cases "toStringV x")
      case (Inl e)
      with False 9(1) show ?thesis by auto
    next
      case (Inr s)
      with False 9(1) 9(2) [of s] show ?thesis by auto
    qed
  qed
qed simp_all

lemma toLocaleStringV_returns: "(\<exists>s. toLocaleStringV v = Inr s) \<longleftrightarrow> localizable v"
  and localeLoop_returns: "(\<exists>s. localeLoop R first xs = Inr s) \<longleftrightarrow> localizableList xs"
proof (induction v and R first xs rule: toLocaleStringV_localeLoop.induct)
  case (9 R first x xs)
  show ?case
  proof (cases "x = JUndefined \<or> x = JNull")
    case True
    with 9(2) [of "[]"] show ?thesis by auto
  next
    case False
    show ?thesis
    proof (cases "toLocaleStringV x")
      case (Inl e)
      with False 9(1) show ?thesis by auto
    next
      case (Inr s)
      with False 9(1) 9(2) [of s] show ?thesis by auto
    qed
  qed
qed simp_all

lemma bindE_returns:
  "(\<exists>r. bindE m (\<lambda>s. Inr (g s)) = Inr r) \<longleftrightarrow> (\<exists>s. m = Inr s)"
  by (cases m) (simp_all add: bindE_def)

lemma join_returns: "(\<exists>s. join xs sep = Inr s) \<longleftrightarrow> convertibleList xs"
  unfolding join_def by (rule joinLoop_returns)

lemma formatLanguages_returns: "(\<exists>l. formatLanguages v = Inr l) \<longleftrightarrow> languagesConvertible v"
proof (cases v)
  case (JArr xs)
  show ?thesis
  proof (cases "xs = []")
    case True
    with JArr show ?thesis by (simp add: formatLanguages_def bindE_Inr)
  next
    case False
    with JArr show ?thesis
      by (simp add: formatLanguages_def bindE_Inr bindE_returns join_returns)
  qed
next
  case (JObj ps)
  show ?thesis
  proof (cases "ps = []")
    case True
    with JObj show ?thesis by (simp add: formatLanguages_def bindE_Inr)
  next
    case False
    with JObj show ?thesis
      by (simp add: formatLanguages_def bindE_Inr bindE_returns join_returns)
  qed
qed (simp_all add: formatLanguages_def)

lemma flatten_returns:
  "(\<exists>r. flattenCountryFields c = Inr r)
     \<longleftrightarrow> languagesConvertible (propertyValue c (lit ''languages''))"
  by (simp only: flatten_fields bindE_returns formatLanguages_returns)

lemma mapE_returns_iff:
  "(\<exists>ys. mapE f xs = Inr ys) \<longleftrightarrow> list_all (\<lambda>x. \<exists>y. f x = Inr y) xs"
  by (induction xs) (auto split: sum.splits)

lemma flattenCountriesArray_returns:
  "(\<exists>r. flattenCountriesArray v = Inr r) \<longleftrightarrow> countriesConvertible v"
proof (cases v)
  case (JArr xs)
  then show ?thesis
    by (simp add: flattenCountriesArray_def bindE_returns mapE_returns_iff flatten_returns)
qed (simp_all add: flattenCountriesArray_def)

lemma formatNumber_returns:
  "(\<exists>r. formatNumber v = Inr r)
     \<longleftrightarrow> (\<not> truthy v \<and> \<not> strictEqZero v) \<or> localizable v"
proof (cases "\<not> truthy v \<and> \<not> strictEqZero v")
  case True
  then show ?thesis by (simp add: formatNumber_def)
next
  case False
  then show ?thesis
    by (auto simp: formatNumber_def bindE_returns toLocaleStringV_returns)
qed

lemma unstructured_languagesConvertible: "\<not> structured v \<Longrightarrow> languagesConvertible v"
  by (cases v) simp_all

lemma unstructured_countriesConvertible: "\<not> structured v \<Longrightarrow> countriesConvertible v"
  by (cases v) simp_all

lemma unstructured_localizable:
  "\<not> structured v \<Longrightarrow> (\<not> truthy v \<and> \<not> strictEqZero v) \<or> localizable v"
  by (cases v) (simp_all add: strictEqZero_def)

text \<open>
  C8 as stated asks that none of the four functions ever raise, on any input. Each
  of them raises a \<^verbatim>\<open>TypeError\<close> on an input that a parsed JSON document can hold: an
  object with an own property \<^verbatim>\<open>toLocaleString\<close> passed to \<open>formatNumber\<close>, and a
  language value with an own property \<^verbatim>\<open>toString\<close>, which \<^verbatim>\<open>join\<close> cannot convert.
\<close>

theorem raises_on_shadowed_methods_counterexample:
  "formatNumber (JObj [(lit ''toLocaleString'', JNum (Fin 1))]) = Inl TypeError
   \<and> formatLanguages (JObj [(lit ''x'', JObj [(lit ''toString'', JNum (Fin 1))])])
       = Inl TypeError
   \<and> flattenCountryFields
       (JObj [(lit ''languages'', JObj [(lit ''x'', JObj [(lit ''toString'', JNum (Fin 1))])])])
       = Inl TypeError
   \<and> flattenCountriesArray (JArr
       [JObj [(lit ''languages'', JObj [(lit ''x'', JObj [(lit ''toString'', JNum (Fin 1))])])]])
       = Inl TypeError"
proof -
  have n: "formatNumber (JObj [(lit ''toLocaleString'', JNum (Fin 1))]) = Inl TypeError"
    by (simp add: formatNumber_def strictEqZero_def bindE_Inl)
  have l: "formatLanguages (JObj [(lit ''x'', JObj [(lit ''toString'', JNum (Fin 1))])])
      = Inl TypeError"
    by (simp add: formatLanguages_def join_def bindE_Inr bindE_Inl)
  have f: "flattenCountryFields
       (JObj [(lit ''languages'', JObj [(lit ''x'', JObj [(lit ''toString'', JNum (Fin 1))])])])
       = Inl TypeError"
    by (simp add: flatten_fields l bindE_Inl)
  have m: "flattenCountriesArray (JArr
       [JObj [(lit ''languages'', JObj [(lit ''x'', JObj [(lit ''toString'', JNum (Fin 1))])])]])
       = Inl TypeError"
    by (simp add: flattenCountriesArray_def f bindE_Inl)
  from n l f m show ?thesis by simp
qed

text \<open>
  C8, amended. \<open>formatLanguages\<close>, \<open>flattenCountryFields\<close> and \<open>flattenCountriesArray\<close>
  return exactly when every language value they join is convertible to a string;
  \<open>formatNumber\<close> returns exactly when its argument is falsy and not 0, or
  \<^verbatim>\<open>toLocaleString()\<close> returns on it. In particular all four return on every input
  that is not an array or an object (\<^verbatim>\<open>null\<close>, \<^verbatim>\<open>undefined\<close>, booleans, numbers,
  strings), and \<open>flattenCountryFields\<close> returns on every record whose \<^verbatim>\<open>languages\<close> is
  missing or not structured: a missing nested path raises nothing.
\<close>

theorem raises_only_on_shadowed_methods:
  "((\<exists>r. formatLanguages v = Inr r) \<longleftrightarrow> languagesConvertible v)
   \<and> ((\<exists>r. flattenCountryFields v = Inr r)
        \<longleftrightarrow> languagesConvertible (propertyValue v (lit ''languages'')))
   \<and> ((\<exists>r. flattenCountriesArray v = Inr r) \<longleftrightarrow> countriesConvertible v)
   \<and> ((\<exists>r. formatNumber v = Inr r)
        \<longleftrightarrow> (\<not> truthy v \<and> \<not> strictEqZero v) \<or> localizable v)
   \<and> (\<not> structured v \<longrightarrow>
        (\<exists>r. formatLanguages v = Inr r) \<and> (\<exists>r. flattenCountryFields v = Inr r)
        \<and> (\<exists>r. flattenCountriesArray v = Inr r) \<and> (\<exists>r. formatNumber v = Inr r))
   \<and> (\<not> structured (propertyValue v (lit ''languages''))
        \<longrightarrow> (\<exists>r. flattenCountryFields v = Inr r))"
proof (intro conjI impI)
  show "(\<exists>r. formatLanguages v = Inr r) \<longleftrightarrow> languagesConvertible v"
    by (rule formatLanguages_returns)
  show "(\<exists>r. flattenCountryFields v = Inr r)
      \<longleftrightarrow> languagesConvertible (propertyValue v (lit ''languages''))"
    by (rule flatten_returns)
  show "(\<exists>r. flattenCountriesArray v = Inr r) \<longleftrightarrow> countriesConvertible v"
    by (rule flattenCountriesArray_returns)
  show "(\<exists>r. formatNumber v = Inr r)
      \<longleftrightarrow> (\<not> truthy v \<and> \<not> strictEqZero v) \<or> localizable v"
    by (rule formatNumber_returns)
next
  assume u: "\<not> structured v"
  then show "\<exists>r. formatLanguages v = Inr r"
    by (simp add: formatLanguages_returns unstructured_languagesConvertible)
  from u have "\<not> structured (propertyValue v (lit ''languages''))"
    by (simp add: propertyValue_unstructured)
  then show "\<exists>r. flattenCountryFields v = Inr r"
    by (simp add: flatten_returns unstructured_languagesConvertible)
  from u show "\<exists>r. flattenCountriesArray v = Inr r"
    by (simp add: flattenCountriesArray_returns unstructured_countriesConvertible)
  from unstructured_localizable [OF u] show "\<exists>r. formatNumber v = Inr r"
    by (simp only: formatNumber_returns)
next
  assume "\<not> structured (propertyValue v (lit ''languages''))"
  then show "\<exists>r. flattenCountryFields v = Inr r"
    by (simp add: flatten_returns unstructured_languagesConvertible)
qed

theorem raises_only_on_shadowed_methods_witness:
  "\<not> structured JNull
   \<and> (\<exists>r. formatLanguages JNull = Inr r) \<and> (\<exists>r. flattenCountryFields JNull = Inr r)
   \<and> (\<exists>r. flattenCountriesArray JNull = Inr r) \<and> (\<exists>r. formatNumber JNull = Inr r)
   \<and> \<not> structured (propertyValue (JObj [(lit ''name'', JNum (Fin 3))]) (lit ''languages''))
   \<and> (\<exists>r. flattenCountryFields (JObj [(lit ''name'', JNum (Fin 3))]) = Inr r)
   \<and> languagesConvertible (propertyValue france (lit ''languages''))
   \<and> (\<exists>r. flattenCountryFields france = Inr r)
   \<and> countriesConvertible (JArr [france, JNull])
   \<and> (\<exists>r. flattenCountriesArray (JArr [france, JNull]) = Inr r)"
proof -
  have a: "languagesConvertible (propertyValue france (lit ''languages''))"
    by (simp add: france_def lit_eq_iff)
  then have b: "countriesConvertible (JArr [france, JNull])"
    by simp
  have c: "\<not> structured (propertyValue (JObj [(lit ''name'', JNum (Fin 3))]) (lit ''languages''))"
    by (simp add: lit_eq_iff)
  have d: "\<not> structured JNull"
    by simp
  from raises_only_on_shadowed_methods [of JNull] d
  have "(\<exists>r. formatLanguages JNull = Inr r) \<and> (\<exists>r. flattenCountryFields JNull = Inr r)
      \<and> (\<exists>r. flattenCountriesArray JNull = Inr r) \<and> (\<exists>r. formatNumber JNull = Inr r)"
    by blast
  moreover from raises_only_on_shadowed_methods [of "JObj [(lit ''name'', JNum (Fin 3))]"] c
  have "\<exists>r. flattenCountryFields (JObj [(lit ''name'', JNum (Fin 3))]) = Inr r"
    by blast
  moreover from raises_only_on_shadowed_methods [of france] a
  have "\<exists>r. flattenCountryFields france = Inr r"
    by blast
  moreover from raises_only_on_shadowed_methods [of "JArr [france, JNull]"] b
  have "\<exists>r. flattenCountriesArray (JArr [france, JNull]) = Inr r"
    by blast
  ultimately show ?thesis
    using a b c d by blast
qed

end
